theory Spec2Isabelle
  imports Main
begin

section \<open>The munger registry and the per-item pipeline of mungegithub/mungers/mungers.go\<close>

text \<open>
  The file under verification keeps two package-level variables, \<open>mungerMap\<close> (every
  registered munger, by name) and \<open>mungers\<close> (the mungers activated for this run, in
  activation order), and offers \<open>RegisterMunger\<close>, \<open>InitializeMungers\<close> and
  \<open>MungeIssue\<close> over them. Everything the functions do to the outside (the GitHub client
  behind \<open>github.Config\<close>, the mungers' own actions, \<open>time.Sleep\<close>) is made explicit:
  the outside is a state of type \<open>'w\<close> that every external call reads and returns
  updated, and each function also returns the list of external calls it made, in order.
\<close>

subsection \<open>Data\<close>

text \<open>
  Go's \<open>error\<close> values are built here with \<open>fmt.Errorf\<close> only; an error is its message,
  and a nil error is \<open>None\<close>.
\<close>

type_synonym error = string

text \<open>
  Modelled from the spec: the types \<open>github.MungeObject\<close>, \<open>github.Issue\<close> and
  \<open>github.PullRequest\<close> are declared in package \<open>github\<close>, outside this file. An item
  is an issue record, an optional pull-request record, a commit list and an event list
  (spec, section 3). Of the issue and the pull request, the fields this file reads are
  modelled; each is tested against nil or dereferenced with \<open>*\<close> in the source, so each is
  a pointer, hence an option. \<open>issue_Number\<close> is \<open>obj.Issue.Number\<close>; the pull request's
  own \<open>Number\<close> keeps its name. The element types of the commit and event slices are
  parameters \<open>'c\<close> and \<open>'e\<close>.
\<close>

record Issue =
  issue_Number :: "int option"

record PullRequest =
  Number :: "int option"
  Title :: "string option"
  Merged :: "bool option"
  Mergeable :: "bool option"

record ('c, 'e) MungeObject =
  Issue :: Issue
  PR :: "PullRequest option"
  Commits :: "'c list"
  Events :: "'e list"

text \<open>
  Modelled from the spec: \<open>github.Config\<close> is declared outside this file; it is taken as
  a parameter, a record of the three operations that \<open>MungeIssue\<close> calls. Each reads the
  item and the outside state and returns Go's pair (value, error) with the new outside
  state. They are read operations of the remote client (spec, sections 3 and 6): they
  do not write the item.
\<close>

record ('c, 'e, 'w) Config =
  GetPR :: "('c, 'e) MungeObject \<Rightarrow> 'w \<Rightarrow> (PullRequest option \<times> error option) \<times> 'w"
  GetFilledCommits :: "('c, 'e) MungeObject \<Rightarrow> 'w \<Rightarrow> ('c list \<times> error option) \<times> 'w"
  GetAllEventsForPR :: "('c, 'e) MungeObject \<Rightarrow> 'w \<Rightarrow> ('e list \<times> error option) \<times> 'w"

text \<open>
  The interface \<open>PRMunger\<close> (lines 30-42): an implementation is a record of its methods.
  The implementations are outside this file. \<open>MungePullRequest\<close> returns nothing; its
  effects go to the remote system (spec, section 4.1), that is, to the outside state,
  and the item stays with \<open>MungeIssue\<close> for the whole call (spec, section 3): an action
  reads the item and does not write it. \<open>AddFlags\<close> is not called by any function of this
  file and is left out.
\<close>

record ('c, 'e, 'w) PRMunger =
  Name :: string
  Initialize :: "'w \<Rightarrow> error option \<times> 'w"
  EachLoop :: "'w \<Rightarrow> error option \<times> 'w"
  MungePullRequest :: "('c, 'e) MungeObject \<Rightarrow> 'w \<Rightarrow> 'w"

text \<open>The package-level variables.\<close>

record ('c, 'e, 'w) globals =
  mungerMap :: "string \<rightharpoonup> ('c, 'e, 'w) PRMunger"
  mungers :: "('c, 'e, 'w) PRMunger list"

text \<open>
  The external calls a function makes, in order, each with what it returned (or, for a
  munger's action, the item it was handed). \<open>CallSleep n\<close> is \<open>time.Sleep\<close> of \<open>n\<close>
  seconds.
\<close>

datatype ('c, 'e) call =
    is_CallGetPR: CallGetPR "PullRequest option" "error option"
  | is_CallSleep: CallSleep nat
  | is_CallGetFilledCommits: CallGetFilledCommits "'c list" "error option"
  | is_CallGetAllEventsForPR: CallGetAllEventsForPR "'e list" "error option"
  | is_CallInitialize: CallInitialize string "error option"
  | is_CallMungePullRequest: CallMungePullRequest string "('c, 'e) MungeObject"

text \<open>
  How a call of \<open>MungeIssue\<close> ends: it returns its \<open>error\<close> (nil is \<open>None\<close>), or it
  panics on a nil pointer dereference.
\<close>

datatype outcome = Return "error option" | Panic

record ('c, 'e, 'w) run =
  outcome :: outcome
  item :: "('c, 'e) MungeObject"
  world :: 'w
  calls :: "('c, 'e) call list"

subsection \<open>The registry\<close>

text \<open>\<open>GetActiveMungers\<close> (lines 60-62).\<close>

definition GetActiveMungers :: "('c, 'e, 'w) globals \<Rightarrow> ('c, 'e, 'w) PRMunger list" where
  "GetActiveMungers g = mungers g"

text \<open>
  \<open>RegisterMunger\<close> (lines 93-100): the returned error and the package variables
  afterwards. The log line writes nothing the model keeps.
\<close>

definition RegisterMunger ::
  "('c, 'e, 'w) PRMunger \<Rightarrow> ('c, 'e, 'w) globals \<Rightarrow> error option \<times> ('c, 'e, 'w) globals" where
  "RegisterMunger munger g =
     (case mungerMap g (Name munger) of
        Some _ \<Rightarrow> (Some (''a munger with that name ('' @ Name munger @ '') already exists''), g)
      | None \<Rightarrow> (None, g\<lparr>mungerMap := (mungerMap g)(Name munger \<mapsto> munger)\<rparr>))"

text \<open>
  \<open>InitializeMungers\<close> (lines 66-78): the loop over the requested names is the recursion
  on the list. It returns the error, the package variables, the outside state and the
  \<open>Initialize\<close> calls it made.
\<close>

fun InitializeMungers ::
  "string list \<Rightarrow> ('c, 'e, 'w) globals \<Rightarrow> 'w \<Rightarrow>
     error option \<times> ('c, 'e, 'w) globals \<times> 'w \<times> ('c, 'e) call list" where
  "InitializeMungers [] g w = (None, g, w, [])"
| "InitializeMungers (name # rest) g w =
     (case mungerMap g name of
        None \<Rightarrow> (Some (''couldn't find a munger named: '' @ name), g, w, [])
      | Some munger \<Rightarrow>
          (let g1 = g\<lparr>mungers := mungers g @ [munger]\<rparr>;
               (err, w1) = Initialize munger w
           in if err \<noteq> None then (err, g1, w1, [CallInitialize (Name munger) err])
              else (case InitializeMungers rest g1 w1 of
                      (err', g', w', cs) \<Rightarrow> (err', g', w', CallInitialize (Name munger) err # cs))))"

subsection \<open>The per-item pipeline\<close>

text \<open>The dispatch loop of \<open>MungeIssue\<close> (lines 149-151).\<close>

fun dispatch ::
  "('c, 'e, 'w) PRMunger list \<Rightarrow> ('c, 'e) MungeObject \<Rightarrow> 'w \<Rightarrow> 'w \<times> ('c, 'e) call list" where
  "dispatch [] obj w = (w, [])"
| "dispatch (munger # rest) obj w =
     (case dispatch rest obj (MungePullRequest munger obj w) of
        (w', cs) \<Rightarrow> (w', CallMungePullRequest (Name munger) obj # cs))"

text \<open>
  Lines 137-152 of \<open>MungeIssue\<close>: the two fetches, each returning its error at once, the
  two assignments to the item, and the dispatch. \<open>t\<close> is the list of calls made so far.
\<close>

definition enrich_and_dispatch ::
  "('c, 'e, 'w) Config \<Rightarrow> ('c, 'e, 'w) globals \<Rightarrow> ('c, 'e) MungeObject \<Rightarrow> 'w \<Rightarrow>
     ('c, 'e) call list \<Rightarrow> ('c, 'e, 'w) run" where
  "enrich_and_dispatch config g obj w t =
     (case GetFilledCommits config obj w of
        ((commits, err), w1) \<Rightarrow>
          (let t1 = t @ [CallGetFilledCommits commits err] in
           if err \<noteq> None then \<lparr>outcome = Return err, item = obj, world = w1, calls = t1\<rparr>
           else
             (let obj1 = obj\<lparr>Commits := commits\<rparr> in
              case GetAllEventsForPR config obj1 w1 of
                ((events, err'), w2) \<Rightarrow>
                  (let t2 = t1 @ [CallGetAllEventsForPR events err'] in
                   if err' \<noteq> None then \<lparr>outcome = Return err', item = obj1, world = w2, calls = t2\<rparr>
                   else
                     (let obj2 = obj1\<lparr>Events := events\<rparr> in
                      case dispatch (mungers g) obj2 w2 of
                        (w3, cs) \<Rightarrow>
                          \<lparr>outcome = Return None, item = obj2, world = w3, calls = t2 @ cs\<rparr>)))))"

text \<open>
  \<open>MungeIssue\<close> (lines 109-153). Go evaluates the arguments of a log call before the
  call, so \<open>*obj.Issue.Number\<close>, \<open>*pr.Title\<close> and \<open>*pr.Number\<close> panic when the pointer
  is nil, whatever the log level. When \<open>pr\<close> is nil, line 116 prints and does not
  return, and line 119 reads \<open>pr.Merged\<close> through the nil pointer.
\<close>

definition MungeIssue ::
  "('c, 'e, 'w) Config \<Rightarrow> ('c, 'e, 'w) globals \<Rightarrow> ('c, 'e) MungeObject \<Rightarrow> 'w \<Rightarrow> ('c, 'e, 'w) run" where
  "MungeIssue config g obj w =
     (case GetPR config obj w of
        ((pr, err), w1) \<Rightarrow>
          (let t1 = [CallGetPR pr err] in
           if err \<noteq> None then \<lparr>outcome = Return None, item = obj, world = w1, calls = t1\<rparr>
           else
             (case pr of
                None \<Rightarrow> \<lparr>outcome = Panic, item = obj, world = w1, calls = t1\<rparr>
              | Some p \<Rightarrow>
                  if Merged p = Some True then
                    (if issue_Number (Issue obj) = None
                     then \<lparr>outcome = Panic, item = obj, world = w1, calls = t1\<rparr>
                     else \<lparr>outcome = Return None, item = obj, world = w1, calls = t1\<rparr>)
                  else
                    (let obj1 = obj\<lparr>PR := Some p\<rparr> in
                     if Mergeable p = None then
                       (if Title p = None \<or> Number p = None
                        then \<lparr>outcome = Panic, item = obj1, world = w1, calls = t1\<rparr>
                        else
                          (case GetPR config obj1 w1 of
                             ((pr2, err2), w2) \<Rightarrow>
                               (let t2 = t1 @ [CallSleep 2, CallGetPR pr2 err2] in
                                if err2 \<noteq> None
                                then \<lparr>outcome = Return err2, item = obj1, world = w2, calls = t2\<rparr>
                                else
                                  (case pr2 of
                                     None \<Rightarrow> \<lparr>outcome = Panic, item = obj1, world = w2, calls = t2\<rparr>
                                   | Some p2 \<Rightarrow>
                                       if Mergeable p2 = None \<and> Number p2 = None
                                       then \<lparr>outcome = Panic, item = obj1, world = w2, calls = t2\<rparr>
                                       else enrich_and_dispatch config g obj1 w2 t2))))
                     else enrich_and_dispatch config g obj1 w1 t1))))"

subsection \<open>Reading the list of calls\<close>



text \<open>The calls of a run of \<open>Initialize\<close> over the mungers \<open>ms\<close>, each returning nil.\<close>

definition inits_ok :: "('c, 'e, 'w) PRMunger list \<Rightarrow> ('c, 'e) call list" where
  "inits_ok ms = map (\<lambda>m. CallInitialize (Name m) None) ms"

subsection \<open>Concrete runs\<close>

text \<open>
  A remote client for concrete runs. The outside state counts the client's calls; the
  first \<open>GetPR\<close> (made at count 0) answers \<open>first\<close>, every later one \<open>second\<close>; the
  commit and event fetches answer \<open>commits\<close> and \<open>events\<close>.
\<close>

definition example_config ::
  "PullRequest option \<times> error option \<Rightarrow> PullRequest option \<times> error option \<Rightarrow>
     string list \<times> error option \<Rightarrow> string list \<times> error option \<Rightarrow> (string, string, nat) Config" where
  "example_config first second commits events =
     \<lparr>GetPR = (\<lambda>obj w. (if w = 0 then first else second, Suc w)),
      GetFilledCommits = (\<lambda>obj w. (commits, Suc w)),
      GetAllEventsForPR = (\<lambda>obj w. (events, Suc w))\<rparr>"

text \<open>
  A munger for concrete runs: its action appends the digit \<open>k\<close> to the outside state, so
  the state after a dispatch shows which actions ran and in which order. Its
  \<open>Initialize\<close> answers \<open>init\<close>.
\<close>

definition example_munger :: "string \<Rightarrow> nat \<Rightarrow> error option \<Rightarrow> (string, string, nat) PRMunger" where
  "example_munger name k init =
     \<lparr>Name = name,
      Initialize = (\<lambda>w. (init, Suc w)),
      EachLoop = (\<lambda>w. (None, w)),
      MungePullRequest = (\<lambda>obj w. 10 * w + k)\<rparr>"

definition example_item :: "(string, string) MungeObject" where
  "example_item = \<lparr>Issue = \<lparr>issue_Number = Some 7\<rparr>, PR = None, Commits = [], Events = []\<rparr>"

definition example_pr :: "bool option \<Rightarrow> bool option \<Rightarrow> PullRequest" where
  "example_pr merged mergeable =
     \<lparr>Number = Some 7, Title = Some ''Fix the queue'', Merged = merged, Mergeable = mergeable\<rparr>"

definition example_globals :: "(string, string, nat) globals" where
  "example_globals =
     \<lparr>mungerMap = [''a'' \<mapsto> example_munger ''a'' 1 None, ''b'' \<mapsto> example_munger ''b'' 2 None],
      mungers = [example_munger ''a'' 1 None, example_munger ''b'' 2 None]\<rparr>"

text \<open>
  A registry before activation: three mungers are registered, none is active. The
  \<open>Initialize\<close> of \<open>''c''\<close> fails.
\<close>

definition example_registry :: "(string, string, nat) globals" where
  "example_registry =
     \<lparr>mungerMap = [''a'' \<mapsto> example_munger ''a'' 1 None, ''b'' \<mapsto> example_munger ''b'' 2 None,
                   ''c'' \<mapsto> example_munger ''c'' 3 (Some ''no token'')],
      mungers = []\<rparr>"

section \<open>How a run goes\<close>

lemma dispatch_calls: "snd (dispatch ms obj w) = map (\<lambda>m. CallMungePullRequest (Name m) obj) ms"
  by (induction ms arbitrary: w) (simp_all add: case_prod_beta)

lemma dispatch_world: "fst (dispatch ms obj w) = foldl (\<lambda>w m. MungePullRequest m obj w) w ms"
  by (induction ms arbitrary: w) (simp_all add: case_prod_beta)

lemma dispatch_eq:
  "dispatch ms obj w =
     (foldl (\<lambda>w m. MungePullRequest m obj w) w ms, map (\<lambda>m. CallMungePullRequest (Name m) obj) ms)"
  by (simp add: prod_eq_iff dispatch_calls dispatch_world)

lemma enrich_commit_error:
  assumes "GetFilledCommits config obj w = ((cs, Some e), w1)"
  shows "enrich_and_dispatch config g obj w t =
    \<lparr>outcome = Return (Some e), item = obj, world = w1, calls = t @ [CallGetFilledCommits cs (Some e)]\<rparr>"
  using assms by (simp add: enrich_and_dispatch_def)

lemma enrich_event_error:
  assumes "GetFilledCommits config obj w = ((cs, None), w1)"
    and "GetAllEventsForPR config (obj\<lparr>Commits := cs\<rparr>) w1 = ((es, Some e), w2)"
  shows "enrich_and_dispatch config g obj w t =
    \<lparr>outcome = Return (Some e), item = obj\<lparr>Commits := cs\<rparr>, world = w2,
     calls = t @ [CallGetFilledCommits cs None, CallGetAllEventsForPR es (Some e)]\<rparr>"
  using assms by (simp add: enrich_and_dispatch_def)

lemma enrich_dispatched:
  assumes "GetFilledCommits config obj w = ((cs, None), w1)"
    and "GetAllEventsForPR config (obj\<lparr>Commits := cs\<rparr>) w1 = ((es, None), w2)"
  shows "enrich_and_dispatch config g obj w t =
    \<lparr>outcome = Return None, item = obj\<lparr>Commits := cs, Events := es\<rparr>,
     world = foldl (\<lambda>w m. MungePullRequest m (obj\<lparr>Commits := cs, Events := es\<rparr>) w) w2 (mungers g),
     calls = t @ [CallGetFilledCommits cs None, CallGetAllEventsForPR es None]
        @ map (\<lambda>m. CallMungePullRequest (Name m) (obj\<lparr>Commits := cs, Events := es\<rparr>)) (mungers g)\<rparr>"
  using assms by (simp add: enrich_and_dispatch_def dispatch_eq Let_def)

lemma enrich_cases:
  obtains (commit_error) cs e w1 where "GetFilledCommits config obj w = ((cs, Some e), w1)"
  | (event_error) cs w1 es e w2 where "GetFilledCommits config obj w = ((cs, None), w1)"
      "GetAllEventsForPR config (obj\<lparr>Commits := cs\<rparr>) w1 = ((es, Some e), w2)"
  | (dispatched) cs w1 es w2 where "GetFilledCommits config obj w = ((cs, None), w1)"
      "GetAllEventsForPR config (obj\<lparr>Commits := cs\<rparr>) w1 = ((es, None), w2)"
proof -
  obtain cs err w1 where a: "GetFilledCommits config obj w = ((cs, err), w1)"
    by (metis prod.exhaust)
  obtain es err' w2 where b: "GetAllEventsForPR config (obj\<lparr>Commits := cs\<rparr>) w1 = ((es, err'), w2)"
    by (metis prod.exhaust)
  show thesis
  proof (cases err)
    case (Some e)
    with a show thesis by (auto intro: commit_error)
  next
    case None
    show thesis
    proof (cases err')
      case (Some e)
      with a b None show thesis by (auto intro: event_error)
    next
      case n: None
      with a b None show thesis by (auto intro: dispatched)
    qed
  qed
qed


lemma MungeIssue_lookup_error:
  assumes "GetPR config obj w = ((pr, Some e), w1)"
  shows "MungeIssue config g obj w =
    \<lparr>outcome = Return None, item = obj, world = w1, calls = [CallGetPR pr (Some e)]\<rparr>"
  using assms by (simp add: MungeIssue_def)

lemma MungeIssue_not_a_pr:
  assumes "GetPR config obj w = ((None, None), w1)"
  shows "MungeIssue config g obj w =
    \<lparr>outcome = Panic, item = obj, world = w1, calls = [CallGetPR None None]\<rparr>"
  using assms by (simp add: MungeIssue_def)

lemma MungeIssue_merged:
  assumes "GetPR config obj w = ((Some p, None), w1)" and "Merged p = Some True"
  shows "MungeIssue config g obj w =
    \<lparr>outcome = (if issue_Number (Issue obj) = None then Panic else Return None),
     item = obj, world = w1, calls = [CallGetPR (Some p) None]\<rparr>"
  using assms by (simp add: MungeIssue_def Let_def)

lemma MungeIssue_mergeable_known:
  assumes "GetPR config obj w = ((Some p, None), w1)" and "Merged p \<noteq> Some True"
    and "Mergeable p \<noteq> None"
  shows "MungeIssue config g obj w =
    enrich_and_dispatch config g (obj\<lparr>PR := Some p\<rparr>) w1 [CallGetPR (Some p) None]"
  using assms by (auto simp add: MungeIssue_def Let_def)

lemma MungeIssue_wait_log_panic:
  assumes "GetPR config obj w = ((Some p, None), w1)" and "Merged p \<noteq> Some True"
    and "Mergeable p = None" and "Title p = None \<or> Number p = None"
  shows "MungeIssue config g obj w =
    \<lparr>outcome = Panic, item = obj\<lparr>PR := Some p\<rparr>, world = w1, calls = [CallGetPR (Some p) None]\<rparr>"
  using assms by (auto simp add: MungeIssue_def Let_def)

lemma MungeIssue_refetch:
  assumes "GetPR config obj w = ((Some p, None), w1)" and "Merged p \<noteq> Some True"
    and "Mergeable p = None" and "Title p \<noteq> None" and "Number p \<noteq> None"
    and "GetPR config (obj\<lparr>PR := Some p\<rparr>) w1 = ((pr2, err2), w2)"
  shows "MungeIssue config g obj w =
    (if err2 \<noteq> None then
       \<lparr>outcome = Return err2, item = obj\<lparr>PR := Some p\<rparr>, world = w2,
        calls = [CallGetPR (Some p) None, CallSleep 2, CallGetPR pr2 err2]\<rparr>
     else if pr2 = None \<or> (Mergeable (the pr2) = None \<and> Number (the pr2) = None) then
       \<lparr>outcome = Panic, item = obj\<lparr>PR := Some p\<rparr>, world = w2,
        calls = [CallGetPR (Some p) None, CallSleep 2, CallGetPR pr2 err2]\<rparr>
     else enrich_and_dispatch config g (obj\<lparr>PR := Some p\<rparr>) w2
        [CallGetPR (Some p) None, CallSleep 2, CallGetPR pr2 err2])"
  using assms by (auto simp add: MungeIssue_def Let_def split: option.splits)

lemma MungeIssue_cases:
  fixes config g obj w
  defines "r \<equiv> MungeIssue config g obj w"
  obtains (halt) "list_all (\<lambda>c. is_CallGetPR c \<or> is_CallSleep c) (calls r)"
      "Commits (item r) = Commits obj" "Events (item r) = Events obj"
  | (enrich) p w' t where "r = enrich_and_dispatch config g (obj\<lparr>PR := Some p\<rparr>) w' t"
      "list_all (\<lambda>c. is_CallGetPR c \<or> is_CallSleep c) t"
proof -
  obtain pr err w1 where a: "GetPR config obj w = ((pr, err), w1)"
    by (metis prod.exhaust)
  consider (e) e where "err = Some e" | (n) "err = None" "pr = None"
    | (m) p where "err = None" "pr = Some p" "Merged p = Some True"
    | (k) p where "err = None" "pr = Some p" "Merged p \<noteq> Some True" "Mergeable p \<noteq> None"
    | (l) p where "err = None" "pr = Some p" "Merged p \<noteq> Some True" "Mergeable p = None"
        "Title p = None \<or> Number p = None"
    | (f) p where "err = None" "pr = Some p" "Merged p \<noteq> Some True" "Mergeable p = None"
        "Title p \<noteq> None" "Number p \<noteq> None"
    by (cases err; cases pr) blast+
  then show thesis
  proof cases
    case e
    with a show thesis by (intro halt) (simp_all add: r_def MungeIssue_lookup_error)
  next
    case n
    with a show thesis by (intro halt) (simp_all add: r_def MungeIssue_not_a_pr)
  next
    case m
    with a show thesis by (intro halt) (simp_all add: r_def MungeIssue_merged)
  next
    case k
    with a have "r = enrich_and_dispatch config g (obj\<lparr>PR := Some p\<rparr>) w1 [CallGetPR (Some p) None]"
      by (simp add: r_def MungeIssue_mergeable_known)
    then show thesis by (rule enrich) simp
  next
    case l
    with a show thesis by (intro halt) (simp_all add: r_def MungeIssue_wait_log_panic)
  next
    case f
    obtain pr2 err2 w2 where b: "GetPR config (obj\<lparr>PR := Some p\<rparr>) w1 = ((pr2, err2), w2)"
      by (metis prod.exhaust)
    note eq = MungeIssue_refetch [OF a [unfolded f(1,2)] f(3,4,5,6) b, of g, folded r_def]
    show thesis
    proof (cases "err2 \<noteq> None \<or> pr2 = None \<or> (Mergeable (the pr2) = None \<and> Number (the pr2) = None)")
      case True
      then show thesis by (intro halt) (auto simp add: eq)
    next
      case False
      then have "r = enrich_and_dispatch config g (obj\<lparr>PR := Some p\<rparr>) w2
          [CallGetPR (Some p) None, CallSleep 2, CallGetPR pr2 err2]"
        by (auto simp add: eq)
      then show thesis by (rule enrich) simp
    qed
  qed
qed

lemma enrich_summary:
  fixes config g obj w t
  defines "r \<equiv> enrich_and_dispatch config g obj w t"
  assumes t: "list_all (\<lambda>c. is_CallGetPR c \<or> is_CallSleep c) t"
  obtains (cerr) cs e where "calls r = t @ [CallGetFilledCommits cs (Some e)]"
      "outcome r = Return (Some e)" "item r = obj"
  | (eerr) cs es e where
      "calls r = t @ [CallGetFilledCommits cs None, CallGetAllEventsForPR es (Some e)]"
      "outcome r = Return (Some e)" "item r = obj\<lparr>Commits := cs\<rparr>"
  | (disp) cs es w2 where
      "calls r = t @ [CallGetFilledCommits cs None, CallGetAllEventsForPR es None]
         @ map (\<lambda>m. CallMungePullRequest (Name m) (item r)) (mungers g)"
      "outcome r = Return None" "item r = obj\<lparr>Commits := cs, Events := es\<rparr>"
      "world r = foldl (\<lambda>w m. MungePullRequest m (item r) w) w2 (mungers g)"
proof (cases rule: enrich_cases [where config = config and obj = obj and w = w])
  case (commit_error cs e w1)
  then show thesis by (intro that(1)) (simp_all add: r_def enrich_commit_error)
next
  case (event_error cs w1 es e w2)
  then show thesis by (intro that(2)) (simp_all add: r_def enrich_event_error)
next
  case (dispatched cs w1 es w2)
  then show thesis by (intro that(3)) (simp_all add: r_def enrich_dispatched)
qed


lemma MungeIssue_shape:
  fixes config g obj w
  defines "r \<equiv> MungeIssue config g obj w"
  obtains (stopped) "\<forall>c\<in>set (calls r). is_CallGetPR c \<or> is_CallSleep c"
      "Commits (item r) = Commits obj" "Events (item r) = Events obj"
  | (commit_error) t cs e where "\<forall>c\<in>set t. is_CallGetPR c \<or> is_CallSleep c"
      "calls r = t @ [CallGetFilledCommits cs (Some e)]" "outcome r = Return (Some e)"
      "Commits (item r) = Commits obj" "Events (item r) = Events obj"
  | (event_error) t cs es e where "\<forall>c\<in>set t. is_CallGetPR c \<or> is_CallSleep c"
      "calls r = t @ [CallGetFilledCommits cs None, CallGetAllEventsForPR es (Some e)]"
      "outcome r = Return (Some e)" "Commits (item r) = cs" "Events (item r) = Events obj"
  | (dispatched) t cs es w2 where "\<forall>c\<in>set t. is_CallGetPR c \<or> is_CallSleep c"
      "calls r = t @ [CallGetFilledCommits cs None, CallGetAllEventsForPR es None]
         @ map (\<lambda>m. CallMungePullRequest (Name m) (item r)) (mungers g)"
      "outcome r = Return None" "Commits (item r) = cs" "Events (item r) = es"
      "world r = foldl (\<lambda>w m. MungePullRequest m (item r) w) w2 (mungers g)"
proof (cases rule: MungeIssue_cases [where config = config and g = g and obj = obj and w = w])
  case halt
  then show thesis by (intro stopped) (simp_all add: r_def list_all_iff)
next
  case (enrich p w' t)
  from enrich(2) have t: "\<forall>c\<in>set t. is_CallGetPR c \<or> is_CallSleep c"
    by (simp add: list_all_iff)
  have eq: "r = enrich_and_dispatch config g (obj\<lparr>PR := Some p\<rparr>) w' t"
    using enrich(1) by (simp add: r_def)
  show thesis
  proof (cases rule: enrich_summary [where config = config and g = g
          and obj = "obj\<lparr>PR := Some p\<rparr>" and w = w' and t = t, OF enrich(2), folded eq])
    case (1 cs e)
    with t show thesis by (intro commit_error [of t cs e]) simp_all
  next
    case (2 cs es e)
    with t show thesis by (intro event_error [of t cs es e]) simp_all
  next
    case (3 cs es w2)
    with t show thesis by (intro dispatched [of t cs es w2]) simp_all
  qed
qed

lemma InitializeMungers_mungerMap:
  "InitializeMungers names g w = (err, g', w', cs) \<Longrightarrow> mungerMap g' = mungerMap g"
proof (induction names arbitrary: g w err g' w' cs)
  case Nil
  then show ?case by simp
next
  case (Cons name rest)
  show ?case
  proof (cases "mungerMap g name")
    case None
    with Cons.prems show ?thesis by simp
  next
    case (Some munger)
    obtain e w1 where i: "Initialize munger w = (e, w1)" by (metis prod.exhaust)
    show ?thesis
    proof (cases e)
      case (Some x)
      with Cons.prems \<open>mungerMap g name = Some munger\<close> i show ?thesis by auto
    next
      case None
      with Cons.prems \<open>mungerMap g name = Some munger\<close> i
      have "InitializeMungers rest (g\<lparr>mungers := mungers g @ [munger]\<rparr>) w1
              = (err, g', w', tl cs)"
        by (auto split: prod.splits)
      from Cons.IH [OF this] show ?thesis by simp
    qed
  qed
qed

lemma InitializeMungers_shape:
  assumes "InitializeMungers names g w = (err, g', w', cs)"
  shows "(err = None \<and> (\<exists>ms. map (mungerMap g) names = map Some ms
            \<and> mungers g' = mungers g @ ms \<and> cs = inits_ok ms))
       \<or> (\<exists>ks n rest ms. names = ks @ n # rest \<and> map (mungerMap g) ks = map Some ms
            \<and> mungers g' = mungers g @ ms \<and> mungerMap g n = None
            \<and> err = Some (''couldn't find a munger named: '' @ n) \<and> cs = inits_ok ms)
       \<or> (\<exists>ks rest ms. names = ks @ rest \<and> ms \<noteq> [] \<and> map (mungerMap g) ks = map Some ms
            \<and> mungers g' = mungers g @ ms \<and> err \<noteq> None
            \<and> cs = inits_ok (butlast ms) @ [CallInitialize (Name (last ms)) err])"
  using assms
proof (induction names arbitrary: g w err g' w' cs)
  case Nil
  then show ?case by (simp add: inits_ok_def)
next
  case (Cons name rest)
  show ?case
  proof (cases "mungerMap g name")
    case None
    with Cons.prems have "name # rest = [] @ name # rest \<and> map (mungerMap g) [] = map Some []
        \<and> mungers g' = mungers g @ [] \<and> mungerMap g name = None
        \<and> err = Some (''couldn't find a munger named: '' @ name) \<and> cs = inits_ok []"
      by (auto simp: inits_ok_def)
    then show ?thesis by blast
  next
    case (Some munger)
    obtain e w1 where i: "Initialize munger w = (e, w1)" by (metis prod.exhaust)
    let ?g1 = "g\<lparr>mungers := mungers g @ [munger]\<rparr>"
    show ?thesis
    proof (cases e)
      case (Some x)
      with Cons.prems \<open>mungerMap g name = Some munger\<close> i
      have "name # rest = [name] @ rest \<and> [munger] \<noteq> [] \<and> map (mungerMap g) [name] = map Some [munger]
          \<and> mungers g' = mungers g @ [munger] \<and> err \<noteq> None
          \<and> cs = inits_ok (butlast [munger]) @ [CallInitialize (Name (last [munger])) err]"
        by (auto simp: inits_ok_def)
      then show ?thesis by blast
    next
      case None
      with Cons.prems \<open>mungerMap g name = Some munger\<close> i
      obtain cs' where rec: "InitializeMungers rest ?g1 w1 = (err, g', w', cs')"
        and cs: "cs = CallInitialize (Name munger) None # cs'"
        by (auto split: prod.splits)
      from Cons.IH [OF rec] consider
        (ok) ms where "err = None" "map (mungerMap g) rest = map Some ms"
          "mungers g' = mungers g @ munger # ms" "cs' = inits_ok ms"
      | (nf) ks n rest' ms where "rest = ks @ n # rest'" "map (mungerMap g) ks = map Some ms"
          "mungers g' = mungers g @ munger # ms" "mungerMap g n = None"
          "err = Some (''couldn't find a munger named: '' @ n)" "cs' = inits_ok ms"
      | (fl) ks rest' ms where "rest = ks @ rest'" "ms \<noteq> []" "map (mungerMap g) ks = map Some ms"
          "mungers g' = mungers g @ munger # ms" "err \<noteq> None"
          "cs' = inits_ok (butlast ms) @ [CallInitialize (Name (last ms)) err]"
        by auto
      then show ?thesis
      proof cases
        case ok
        with Some cs have "err = None \<and> map (mungerMap g) (name # rest) = map Some (munger # ms)
            \<and> mungers g' = mungers g @ (munger # ms) \<and> cs = inits_ok (munger # ms)"
          by (simp add: inits_ok_def)
        then show ?thesis by blast
      next
        case nf
        with Some cs have "name # rest = (name # ks) @ n # rest'
            \<and> map (mungerMap g) (name # ks) = map Some (munger # ms)
            \<and> mungers g' = mungers g @ (munger # ms) \<and> mungerMap g n = None
            \<and> err = Some (''couldn't find a munger named: '' @ n) \<and> cs = inits_ok (munger # ms)"
          by (simp add: inits_ok_def)
        then show ?thesis by blast
      next
        case fl
        with Some cs have "name # rest = (name # ks) @ rest' \<and> munger # ms \<noteq> []
            \<and> map (mungerMap g) (name # ks) = map Some (munger # ms)
            \<and> mungers g' = mungers g @ (munger # ms) \<and> err \<noteq> None
            \<and> cs = inits_ok (butlast (munger # ms)) @ [CallInitialize (Name (last (munger # ms))) err]"
          by (simp add: inits_ok_def)
        then show ?thesis by blast
      qed
    qed
  qed
qed






lemma example_munger_Name: "Name (example_munger name k init) = name"
  by (simp add: example_munger_def)

lemma example_globals_mungers:
  "mungers example_globals = [example_munger ''a'' 1 None, example_munger ''b'' 2 None]"
  by (simp add: example_globals_def)




section \<open>The claims\<close>

text \<open>
  C1. The claim: when the lookup returns no error and a nil pull request, \<open>MungeIssue\<close>
  completes with no error and calls no munger. The code prints "is not a PR, skipping"
  at line 116 and does not return; line 119 then reads \<open>pr.Merged\<close> through the nil
  pointer. At such an input the run ends in a panic, not in a nil return.
\<close>

theorem C1_nil_pull_request_panics:
  "MungeIssue (example_config (None, None) (None, None) ([], None) ([], None))
      example_globals example_item 0
     = \<lparr>outcome = Panic, item = example_item, world = 1, calls = [CallGetPR None None]\<rparr>"
  by (simp add: MungeIssue_not_a_pr example_config_def)

text \<open>
  C2, as amended. For an item whose first lookup returns, without error, an unmerged
  pull request with nil mergeability (carrying the title and number that the log line
  of the wait prints), \<open>MungeIssue\<close> makes exactly one wait, of two seconds, and exactly
  one second lookup. What follows depends on the
  second lookup: if it returns an error, \<open>MungeIssue\<close> returns that error and makes no
  further call; if it returns a pull request and no error, \<open>MungeIssue\<close> goes on to the
  commit fetch, whether the mergeability is now known or still nil (in the latter case
  the pull request carries the number that the log line prints).
\<close>

theorem C2_one_wait_one_refetch:
  fixes config g obj w
  defines "r \<equiv> MungeIssue config g obj w"
  assumes "GetPR config obj w = ((Some p, None), w1)" and "Merged p \<noteq> Some True"
    and "Mergeable p = None" and "Title p \<noteq> None" and "Number p \<noteq> None"
    and "GetPR config (obj\<lparr>PR := Some p\<rparr>) w1 = ((pr2, err2), w2)"
  shows "take 3 (calls r) = [CallGetPR (Some p) None, CallSleep 2, CallGetPR pr2 err2]
     \<and> filter is_CallSleep (calls r) = [CallSleep 2]
     \<and> filter is_CallGetPR (calls r) = [CallGetPR (Some p) None, CallGetPR pr2 err2]
     \<and> (err2 \<noteq> None \<longrightarrow>
           outcome r = Return err2
         \<and> calls r = [CallGetPR (Some p) None, CallSleep 2, CallGetPR pr2 err2])
     \<and> (err2 = None \<and> pr2 = Some p2 \<and> (Mergeable p2 \<noteq> None \<or> Number p2 \<noteq> None) \<longrightarrow>
           r = enrich_and_dispatch config g (obj\<lparr>PR := Some p\<rparr>) w2
                 [CallGetPR (Some p) None, CallSleep 2, CallGetPR pr2 err2]
         \<and> (\<exists>cs e. calls r ! 3 = CallGetFilledCommits cs e))"
proof -
  let ?t = "[CallGetPR (Some p) None, CallSleep 2, CallGetPR pr2 err2]"
  let ?obj1 = "obj\<lparr>PR := Some p\<rparr>"
  note eq = MungeIssue_refetch [OF assms(2-7), of g, folded r_def]
  have t: "list_all (\<lambda>c. is_CallGetPR c \<or> is_CallSleep c) ?t" by simp
  have en: "take 3 (calls (enrich_and_dispatch config g ?obj1 w2 ?t)) = ?t
      \<and> filter is_CallSleep (calls (enrich_and_dispatch config g ?obj1 w2 ?t)) = [CallSleep 2]
      \<and> filter is_CallGetPR (calls (enrich_and_dispatch config g ?obj1 w2 ?t))
           = [CallGetPR (Some p) None, CallGetPR pr2 err2]
      \<and> (\<exists>cs e. calls (enrich_and_dispatch config g ?obj1 w2 ?t) ! 3 = CallGetFilledCommits cs e)"
    by (cases rule: enrich_summary [where config = config and g = g and obj = ?obj1
          and w = w2 and t = ?t, OF t]) (simp_all add: filter_empty_conv)
  show ?thesis
  proof (cases "err2 \<noteq> None \<or> pr2 = None \<or> (Mergeable (the pr2) = None \<and> Number (the pr2) = None)")
    case True
    then have "r = \<lparr>outcome = (if err2 \<noteq> None then Return err2 else Panic), item = ?obj1,
        world = w2, calls = ?t\<rparr>"
      by (auto simp add: eq)
    with True show ?thesis by auto
  next
    case False
    then have "r = enrich_and_dispatch config g ?obj1 w2 ?t"
      by (auto simp add: eq)
    with False en show ?thesis by auto
  qed
qed

theorem C2_one_wait_one_refetch_witness:
  "calls (MungeIssue (example_config (Some (example_pr (Some False) None), None)
        (Some (example_pr (Some False) None), None) ([''c1''], None) ([''e1''], None))
        example_globals example_item 0)
     = [CallGetPR (Some (example_pr (Some False) None)) None, CallSleep 2,
        CallGetPR (Some (example_pr (Some False) None)) None,
        CallGetFilledCommits [''c1''] None, CallGetAllEventsForPR [''e1''] None,
        CallMungePullRequest ''a'' (example_item\<lparr>PR := Some (example_pr (Some False) None),
           Commits := [''c1''], Events := [''e1'']\<rparr>),
        CallMungePullRequest ''b'' (example_item\<lparr>PR := Some (example_pr (Some False) None),
           Commits := [''c1''], Events := [''e1'']\<rparr>)]
   \<and> (\<exists>cs e. calls (MungeIssue (example_config (Some (example_pr (Some False) None), None)
        (Some (example_pr (Some False) None), None) ([''c1''], None) ([''e1''], None))
        example_globals example_item 0) ! 3 = CallGetFilledCommits cs e)
   \<and> outcome (MungeIssue (example_config (Some (example_pr (Some False) None), None)
        (None, Some ''timeout'') ([''c1''], None) ([''e1''], None))
        example_globals example_item 0) = Return (Some ''timeout'')
   \<and> calls (MungeIssue (example_config (Some (example_pr (Some False) None), None)
        (None, Some ''timeout'') ([''c1''], None) ([''e1''], None))
        example_globals example_item 0)
     = [CallGetPR (Some (example_pr (Some False) None)) None, CallSleep 2,
        CallGetPR None (Some ''timeout'')]"
proof -
  let ?p = "example_pr (Some False) None"
  let ?A = "example_config (Some ?p, None) (Some ?p, None) ([''c1''], None) ([''e1''], None)"
  let ?B = "example_config (Some ?p, None) (None, Some ''timeout'') ([''c1''], None) ([''e1''], None)"
  have p: "Merged ?p \<noteq> Some True" "Mergeable ?p = None" "Title ?p \<noteq> None" "Number ?p \<noteq> None"
    by (simp_all add: example_pr_def)
  have a1: "GetPR ?A example_item 0 = ((Some ?p, None), 1)"
    and a2: "GetPR ?A (example_item\<lparr>PR := Some ?p\<rparr>) 1 = ((Some ?p, None), 2)"
    and b1: "GetPR ?B example_item 0 = ((Some ?p, None), 1)"
    and b2: "GetPR ?B (example_item\<lparr>PR := Some ?p\<rparr>) 1 = ((None, Some ''timeout''), 2)"
    by (simp_all add: example_config_def)
  have en: "calls (enrich_and_dispatch ?A example_globals (example_item\<lparr>PR := Some ?p\<rparr>) 2
       [CallGetPR (Some ?p) None, CallSleep 2, CallGetPR (Some ?p) None])
     = [CallGetPR (Some ?p) None, CallSleep 2, CallGetPR (Some ?p) None,
        CallGetFilledCommits [''c1''] None, CallGetAllEventsForPR [''e1''] None,
        CallMungePullRequest ''a'' (example_item\<lparr>PR := Some ?p,
           Commits := [''c1''], Events := [''e1'']\<rparr>),
        CallMungePullRequest ''b'' (example_item\<lparr>PR := Some ?p,
           Commits := [''c1''], Events := [''e1'']\<rparr>)]"
    by (simp add: enrich_and_dispatch_def example_config_def example_globals_def
          example_munger_def Let_def)
  from C2_one_wait_one_refetch [OF a1 p a2, where g = example_globals and ?p2.0 = ?p] p en
    C2_one_wait_one_refetch [OF b1 p b2, where g = example_globals and ?p2.0 = ?p]
  show ?thesis by simp
qed

text \<open>
  The claim as stated fails where the second lookup returns an error: the run below has
  nil mergeability, waits once, looks up once more, and then returns the error of the
  second lookup without fetching commits or events.
\<close>

theorem C2_refetch_error_counterexample:
  "Mergeable (example_pr (Some False) None) = None
   \<and> MungeIssue (example_config (Some (example_pr (Some False) None), None)
        (None, Some ''timeout'') ([''c1''], None) ([''e1''], None))
        example_globals example_item 0
     = \<lparr>outcome = Return (Some ''timeout''),
        item = example_item\<lparr>PR := Some (example_pr (Some False) None)\<rparr>,
        world = 2,
        calls = [CallGetPR (Some (example_pr (Some False) None)) None, CallSleep 2,
                 CallGetPR None (Some ''timeout'')]\<rparr>
   \<and> filter is_CallGetFilledCommits
        (calls (MungeIssue (example_config (Some (example_pr (Some False) None), None)
           (None, Some ''timeout'') ([''c1''], None) ([''e1''], None))
           example_globals example_item 0)) = []"
  by (simp add: MungeIssue_def example_config_def example_pr_def Let_def)

text \<open>
  C3, as amended. When some requested name is not in the registry table,
  \<open>InitializeMungers\<close> returns an error and leaves the table as it was, but the
  activation is partial: the mungers registered under the requested names before the
  point of failure, a proper prefix \<open>ks\<close> of the request, all in the table, have been
  appended to the active list in request order, and \<open>Initialize\<close> has been called on
  each of them in that order. Either every one of them initialised without error, the
  name after the prefix is not in the table and the error is the not-found error naming
  it; or the error is that of the \<open>Initialize\<close> of the last munger appended.
\<close>

theorem C3_activation_stops_at_failure:
  assumes "\<exists>n\<in>set names. mungerMap g n = None"
    and "InitializeMungers names g w = (err, g', w', cs)"
  shows "\<exists>ks n rest ms. names = ks @ n # rest \<and> map (mungerMap g) ks = map Some ms
        \<and> mungerMap g' = mungerMap g \<and> mungers g' = mungers g @ ms \<and> err \<noteq> None
        \<and> ((mungerMap g n = None \<and> err = Some (''couldn't find a munger named: '' @ n)
              \<and> cs = inits_ok ms)
           \<or> (ms \<noteq> [] \<and> cs = inits_ok (butlast ms) @ [CallInitialize (Name (last ms)) err]))"
proof -
  note mm = InitializeMungers_mungerMap [OF assms(2)]
  from InitializeMungers_shape [OF assms(2)] consider
    (ok) ms where "err = None" "map (mungerMap g) names = map Some ms"
  | (nf) ks n rest ms where "names = ks @ n # rest" "map (mungerMap g) ks = map Some ms"
      "mungers g' = mungers g @ ms" "mungerMap g n = None"
      "err = Some (''couldn't find a munger named: '' @ n)" "cs = inits_ok ms"
  | (fl) ks rest ms where "names = ks @ rest" "ms \<noteq> []" "map (mungerMap g) ks = map Some ms"
      "mungers g' = mungers g @ ms" "err \<noteq> None"
      "cs = inits_ok (butlast ms) @ [CallInitialize (Name (last ms)) err]"
    by blast
  then show ?thesis
  proof cases
    case ok
    from assms(1) obtain n where n: "n \<in> set names" "mungerMap g n = None" by blast
    from n(1) have "mungerMap g n \<in> set (map (mungerMap g) names)" by simp
    with ok(2) n(2) show ?thesis by auto
  next
    case nf
    with mm show ?thesis by blast
  next
    case fl
    from assms(1) obtain n where n: "n \<in> set names" "mungerMap g n = None" by blast
    have "n \<notin> set ks"
    proof
      assume "n \<in> set ks"
      then have "mungerMap g n \<in> set (map (mungerMap g) ks)" by simp
      with fl(3) n(2) show False by auto
    qed
    with n(1) fl(1) have "n \<in> set rest" by simp
    then obtain n' rest' where "rest = n' # rest'" by (cases rest) auto
    with fl mm show ?thesis by blast
  qed
qed

theorem C3_activation_stops_at_failure_witness:
  "(\<exists>n\<in>set [''a'', ''zz'', ''b'']. mungerMap example_registry n = None)
   \<and> InitializeMungers [''a'', ''zz'', ''b''] example_registry 0
       = (Some ''couldn't find a munger named: zz'',
          example_registry\<lparr>mungers := [example_munger ''a'' 1 None]\<rparr>, 1,
          [CallInitialize ''a'' None])
   \<and> (\<exists>ks n rest ms. [''a'', ''zz'', ''b''] = ks @ n # rest
         \<and> map (mungerMap example_registry) ks = map Some ms
         \<and> mungers (example_registry\<lparr>mungers := [example_munger ''a'' 1 None]\<rparr>)
             = mungers example_registry @ ms)"
proof -
  have h: "\<exists>n\<in>set [''a'', ''zz'', ''b'']. mungerMap example_registry n = None"
    by (simp add: example_registry_def)
  have run: "InitializeMungers [''a'', ''zz'', ''b''] example_registry 0
       = (Some ''couldn't find a munger named: zz'',
          example_registry\<lparr>mungers := [example_munger ''a'' 1 None]\<rparr>, 1,
          [CallInitialize ''a'' None])"
    by (simp add: example_registry_def example_munger_def)
  from C3_activation_stops_at_failure [OF h run]
  have "\<exists>ks n rest ms. [''a'', ''zz'', ''b''] = ks @ n # rest
         \<and> map (mungerMap example_registry) ks = map Some ms
         \<and> mungers (example_registry\<lparr>mungers := [example_munger ''a'' 1 None]\<rparr>)
             = mungers example_registry @ ms"
    by blast
  with h run show ?thesis by blast
qed

text \<open>
  The claim as stated fails on both counts. In the first run the request names
  \<open>''zz''\<close>, which is not registered, after \<open>''a''\<close>, which is: the not-found error is
  returned, and \<open>''a''\<close> has been appended to the active list and initialised. In the
  second run the \<open>Initialize\<close> of \<open>''c''\<close> fails before the unregistered name is reached:
  the error returned is that of \<open>Initialize\<close>, not the not-found error.
\<close>

theorem C3_partial_activation_counterexample:
  "mungerMap example_registry ''zz'' = None
   \<and> mungers example_registry = []
   \<and> InitializeMungers [''a'', ''zz'', ''b''] example_registry 0
       = (Some ''couldn't find a munger named: zz'',
          example_registry\<lparr>mungers := [example_munger ''a'' 1 None]\<rparr>, 1,
          [CallInitialize ''a'' None])
   \<and> InitializeMungers [''c'', ''zz''] example_registry 0
       = (Some ''no token'',
          example_registry\<lparr>mungers := [example_munger ''c'' 3 (Some ''no token'')]\<rparr>, 1,
          [CallInitialize ''c'' (Some ''no token'')])"
  by (simp add: example_registry_def example_munger_def)

text \<open>
  C4. If the first pull-request lookup returns an error, \<open>MungeIssue\<close> returns nil and
  does nothing more: the lookup is the only call it made (no commit or event fetch, no
  munger), and the item is as it was.
\<close>

theorem C4_lookup_error_swallowed:
  assumes "GetPR config obj w = ((pr, Some e), w1)"
  shows "MungeIssue config g obj w =
    \<lparr>outcome = Return None, item = obj, world = w1, calls = [CallGetPR pr (Some e)]\<rparr>"
  using assms by (rule MungeIssue_lookup_error)

theorem C4_lookup_error_swallowed_witness:
  "GetPR (example_config (None, Some ''timeout'') (None, None) ([], None) ([], None)) example_item 0
     = ((None, Some ''timeout''), 1)
   \<and> MungeIssue (example_config (None, Some ''timeout'') (None, None) ([], None) ([], None))
         example_globals example_item 0
     = \<lparr>outcome = Return None, item = example_item, world = 1,
        calls = [CallGetPR None (Some ''timeout'')]\<rparr>"
proof -
  have h: "GetPR (example_config (None, Some ''timeout'') (None, None) ([], None) ([], None))
      example_item 0 = ((None, Some ''timeout''), 1)"
    by (simp add: example_config_def)
  from h C4_lookup_error_swallowed [OF h] show ?thesis by simp
qed




text \<open>
  C6. When the commit fetch is made and returns an error, \<open>MungeIssue\<close> returns that
  error and no munger's action is called; the same holds for the event fetch.
\<close>

theorem C6_fetch_error_propagated:
  fixes config g obj w
  defines "r \<equiv> MungeIssue config g obj w"
  shows "(CallGetFilledCommits cs (Some e) \<in> set (calls r) \<longrightarrow>
            outcome r = Return (Some e) \<and> filter is_CallMungePullRequest (calls r) = [])
       \<and> (CallGetAllEventsForPR es (Some e') \<in> set (calls r) \<longrightarrow>
            outcome r = Return (Some e') \<and> filter is_CallMungePullRequest (calls r) = [])"
  unfolding r_def
  by (cases rule: MungeIssue_shape [where config = config and g = g and obj = obj and w = w])
     (auto simp: filter_empty_conv)

theorem C6_fetch_error_propagated_witness:
  "CallGetFilledCommits [] (Some ''no commits'')
     \<in> set (calls (MungeIssue (example_config (Some (example_pr (Some False) (Some True)), None)
           (None, None) ([], Some ''no commits'') ([], None)) example_globals example_item 0))
   \<and> outcome (MungeIssue (example_config (Some (example_pr (Some False) (Some True)), None)
           (None, None) ([], Some ''no commits'') ([], None)) example_globals example_item 0)
       = Return (Some ''no commits'')
   \<and> filter is_CallMungePullRequest
         (calls (MungeIssue (example_config (Some (example_pr (Some False) (Some True)), None)
           (None, None) ([], Some ''no commits'') ([], None)) example_globals example_item 0)) = []
   \<and> CallGetAllEventsForPR [] (Some ''no events'')
     \<in> set (calls (MungeIssue (example_config (Some (example_pr (Some False) (Some True)), None)
           (None, None) ([''c1''], None) ([], Some ''no events'')) example_globals example_item 0))
   \<and> outcome (MungeIssue (example_config (Some (example_pr (Some False) (Some True)), None)
           (None, None) ([''c1''], None) ([], Some ''no events'')) example_globals example_item 0)
       = Return (Some ''no events'')
   \<and> filter is_CallMungePullRequest
         (calls (MungeIssue (example_config (Some (example_pr (Some False) (Some True)), None)
           (None, None) ([''c1''], None) ([], Some ''no events'')) example_globals example_item 0)) = []"
proof -
  let ?A = "MungeIssue (example_config (Some (example_pr (Some False) (Some True)), None)
           (None, None) ([], Some ''no commits'') ([], None)) example_globals example_item 0"
  let ?B = "MungeIssue (example_config (Some (example_pr (Some False) (Some True)), None)
           (None, None) ([''c1''], None) ([], Some ''no events'')) example_globals example_item 0"
  have a: "CallGetFilledCommits [] (Some ''no commits'') \<in> set (calls ?A)"
    by (simp add: MungeIssue_def enrich_and_dispatch_def example_config_def example_pr_def Let_def)
  have b: "CallGetAllEventsForPR [] (Some ''no events'') \<in> set (calls ?B)"
    by (simp add: MungeIssue_def enrich_and_dispatch_def example_config_def example_pr_def Let_def)
  from a b
    C6_fetch_error_propagated [where cs = "[]" and e = "''no commits''" and config = "example_config
      (Some (example_pr (Some False) (Some True)), None) (None, None) ([], Some ''no commits'') ([], None)"
      and g = example_globals and obj = example_item and w = 0]
    C6_fetch_error_propagated [where es = "[]" and e' = "''no events''" and config = "example_config
      (Some (example_pr (Some False) (Some True)), None) (None, None) ([''c1''], None) ([], Some ''no events'')"
      and g = example_globals and obj = example_item and w = 0]
  show ?thesis by blast
qed

text \<open>
  C7. When dispatch is reached (the event fetch returned without error), the calls that
  follow the event fetch are exactly one \<open>MungePullRequest\<close> per active munger, in the
  order of the active list, each handed the enriched item, and no munger was called
  before; the outside state at the end is the mungers' actions applied one after the
  other in that order; \<open>MungeIssue\<close> then returns nil. This holds for every list of
  mungers, whatever their actions do.
\<close>

theorem C7_dispatch_in_order:
  fixes config g obj w
  defines "r \<equiv> MungeIssue config g obj w"
  assumes "CallGetAllEventsForPR es None \<in> set (calls r)"
  shows "\<exists>t w2. calls r = t @ [CallGetAllEventsForPR es None]
              @ map (\<lambda>m. CallMungePullRequest (Name m) (item r)) (mungers g)
            \<and> filter is_CallMungePullRequest t = []
            \<and> world r = foldl (\<lambda>w m. MungePullRequest m (item r) w) w2 (mungers g)
            \<and> outcome r = Return None \<and> Events (item r) = es"
proof (cases rule: MungeIssue_shape [where config = config and g = g and obj = obj and w = w,
         folded r_def])
  case 1
  with assms(2) show ?thesis by auto
next
  case (2 t cs e)
  with assms(2) show ?thesis by auto
next
  case (3 t cs es' e)
  with assms(2) show ?thesis by auto
next
  case (4 t cs es' w2)
  from 4(1,2) assms(2) have "es' = es" by auto
  with 4 have "calls r = (t @ [CallGetFilledCommits cs None])
       @ [CallGetAllEventsForPR es None]
       @ map (\<lambda>m. CallMungePullRequest (Name m) (item r)) (mungers g)
     \<and> filter is_CallMungePullRequest (t @ [CallGetFilledCommits cs None]) = []
     \<and> world r = foldl (\<lambda>w m. MungePullRequest m (item r) w) w2 (mungers g)
     \<and> outcome r = Return None \<and> Events (item r) = es"
    by (auto simp: filter_empty_conv)
  then show ?thesis by blast
qed

theorem C7_dispatch_in_order_witness:
  "CallGetAllEventsForPR [''e1''] None
     \<in> set (calls (MungeIssue (example_config (Some (example_pr (Some False) (Some True)), None)
           (None, None) ([''c1''], None) ([''e1''], None)) example_globals example_item 0))
   \<and> (\<exists>t. calls (MungeIssue (example_config (Some (example_pr (Some False) (Some True)), None)
           (None, None) ([''c1''], None) ([''e1''], None)) example_globals example_item 0)
         = t @ [CallGetAllEventsForPR [''e1''] None,
                CallMungePullRequest ''a''
                  (example_item\<lparr>PR := Some (example_pr (Some False) (Some True)),
                     Commits := [''c1''], Events := [''e1'']\<rparr>),
                CallMungePullRequest ''b''
                  (example_item\<lparr>PR := Some (example_pr (Some False) (Some True)),
                     Commits := [''c1''], Events := [''e1'']\<rparr>)]
         \<and> filter is_CallMungePullRequest t = [])
   \<and> outcome (MungeIssue (example_config (Some (example_pr (Some False) (Some True)), None)
           (None, None) ([''c1''], None) ([''e1''], None)) example_globals example_item 0)
       = Return None
   \<and> world (MungeIssue (example_config (Some (example_pr (Some False) (Some True)), None)
           (None, None) ([''c1''], None) ([''e1''], None)) example_globals example_item 0)
       = 312"
proof -
  let ?R = "MungeIssue (example_config (Some (example_pr (Some False) (Some True)), None)
           (None, None) ([''c1''], None) ([''e1''], None)) example_globals example_item 0"
  have run: "?R = \<lparr>outcome = Return None,
      item = example_item\<lparr>PR := Some (example_pr (Some False) (Some True)),
                     Commits := [''c1''], Events := [''e1'']\<rparr>,
      world = 312,
      calls = [CallGetPR (Some (example_pr (Some False) (Some True))) None,
               CallGetFilledCommits [''c1''] None, CallGetAllEventsForPR [''e1''] None,
               CallMungePullRequest ''a''
                  (example_item\<lparr>PR := Some (example_pr (Some False) (Some True)),
                     Commits := [''c1''], Events := [''e1'']\<rparr>),
               CallMungePullRequest ''b''
                  (example_item\<lparr>PR := Some (example_pr (Some False) (Some True)),
                     Commits := [''c1''], Events := [''e1'']\<rparr>)]\<rparr>"
    by (simp add: MungeIssue_def enrich_and_dispatch_def example_config_def example_pr_def
          example_globals_def example_munger_def Let_def)
  have h: "CallGetAllEventsForPR [''e1''] None \<in> set (calls ?R)"
    by (simp add: run)
  from C7_dispatch_in_order [OF h] have
    "\<exists>t. calls ?R = t @ [CallGetAllEventsForPR [''e1''] None]
              @ map (\<lambda>m. CallMungePullRequest (Name m) (item ?R)) (mungers example_globals)
            \<and> filter is_CallMungePullRequest t = []" by blast
  then have "\<exists>t. calls ?R = t @ [CallGetAllEventsForPR [''e1''] None,
                CallMungePullRequest ''a''
                  (example_item\<lparr>PR := Some (example_pr (Some False) (Some True)),
                     Commits := [''c1''], Events := [''e1'']\<rparr>),
                CallMungePullRequest ''b''
                  (example_item\<lparr>PR := Some (example_pr (Some False) (Some True)),
                     Commits := [''c1''], Events := [''e1'']\<rparr>)]
         \<and> filter is_CallMungePullRequest t = []"
    by (simp add: run example_globals_mungers example_munger_Name)
  with h show ?thesis by (simp add: run)
qed

text \<open>
  C8. Registering a munger under a name that is already in the table returns the
  duplicate-name error and changes nothing: the table still holds the munger that was
  registered first under that name.
\<close>

theorem C8_duplicate_rejected:
  assumes "mungerMap g (Name munger) = Some first"
  shows "RegisterMunger munger g =
      (Some (''a munger with that name ('' @ Name munger @ '') already exists''), g)
    \<and> mungerMap (snd (RegisterMunger munger g)) (Name munger) = Some first"
  using assms by (simp add: RegisterMunger_def)

theorem C8_duplicate_rejected_witness:
  "mungerMap (snd (RegisterMunger (example_munger ''a'' 1 None) \<lparr>mungerMap = Map.empty, mungers = []\<rparr>))
       (Name (example_munger ''a'' 2 None)) = Some (example_munger ''a'' 1 None)
   \<and> fst (RegisterMunger (example_munger ''a'' 2 None)
         (snd (RegisterMunger (example_munger ''a'' 1 None) \<lparr>mungerMap = Map.empty, mungers = []\<rparr>)))
       = Some ''a munger with that name (a) already exists''
   \<and> mungerMap (snd (RegisterMunger (example_munger ''a'' 2 None)
         (snd (RegisterMunger (example_munger ''a'' 1 None) \<lparr>mungerMap = Map.empty, mungers = []\<rparr>))))
       ''a'' = Some (example_munger ''a'' 1 None)"
proof -
  let ?g1 = "snd (RegisterMunger (example_munger ''a'' 1 None) \<lparr>mungerMap = Map.empty, mungers = []\<rparr>)"
  have h: "mungerMap ?g1 (Name (example_munger ''a'' 2 None)) = Some (example_munger ''a'' 1 None)"
    by (simp add: RegisterMunger_def example_munger_Name)
  from h C8_duplicate_rejected [OF h] show ?thesis
    by (simp add: example_munger_Name)
qed

text \<open>
  C9, as amended. When the lookup returns a pull request marked merged and the item's
  issue carries its number, \<open>MungeIssue\<close> returns nil; the lookup is its only call (no
  fetch, no munger) and the item is as it was.
\<close>

theorem C9_merged_skipped:
  assumes "GetPR config obj w = ((Some p, None), w1)" and "Merged p = Some True"
    and "issue_Number (Issue obj) \<noteq> None"
  shows "MungeIssue config g obj w =
    \<lparr>outcome = Return None, item = obj, world = w1, calls = [CallGetPR (Some p) None]\<rparr>"
  using assms by (simp add: MungeIssue_merged)

theorem C9_merged_skipped_witness:
  "GetPR (example_config (Some (example_pr (Some True) None), None) (None, None)
       ([''c1''], None) ([''e1''], None)) example_item 0
     = ((Some (example_pr (Some True) None), None), 1)
   \<and> Merged (example_pr (Some True) None) = Some True
   \<and> issue_Number (Issue example_item) \<noteq> None
   \<and> MungeIssue (example_config (Some (example_pr (Some True) None), None) (None, None)
       ([''c1''], None) ([''e1''], None)) example_globals example_item 0
     = \<lparr>outcome = Return None, item = example_item, world = 1,
        calls = [CallGetPR (Some (example_pr (Some True) None)) None]\<rparr>"
proof -
  have h1: "GetPR (example_config (Some (example_pr (Some True) None), None) (None, None)
       ([''c1''], None) ([''e1''], None)) example_item 0
     = ((Some (example_pr (Some True) None), None), 1)"
    by (simp add: example_config_def)
  have h2: "Merged (example_pr (Some True) None) = Some True"
    by (simp add: example_pr_def)
  have h3: "issue_Number (Issue example_item) \<noteq> None"
    by (simp add: example_item_def)
  from h1 h2 h3 C9_merged_skipped [OF h1 h2 h3] show ?thesis by simp
qed

text \<open>
  The claim as stated fails for an item whose issue has no number: the log line of the
  merged branch (line 120) takes \<open>*obj.Issue.Number\<close> as an argument, which is evaluated
  before the log call, so the run below, on a merged pull request, ends in a panic
  after the lookup instead of returning nil.
\<close>

theorem C9_nil_issue_number_counterexample:
  "Merged (example_pr (Some True) None) = Some True
   \<and> MungeIssue (example_config (Some (example_pr (Some True) None), None) (None, None)
       ([''c1''], None) ([''e1''], None)) example_globals
       (example_item\<lparr>Issue := \<lparr>issue_Number = None\<rparr>\<rparr>) 0
     = \<lparr>outcome = Panic, item = example_item\<lparr>Issue := \<lparr>issue_Number = None\<rparr>\<rparr>, world = 1,
        calls = [CallGetPR (Some (example_pr (Some True) None)) None]\<rparr>"
  by (simp add: MungeIssue_def example_config_def example_pr_def Let_def)

text \<open>
  C10. When the first lookup returns an unmerged pull request \<open>p\<close> with nil
  mergeability and the second lookup returns without error, the pull request attached
  to the item is \<open>p\<close>, the one fetched first, and every munger is handed an item whose
  pull request is \<open>p\<close>. The run after the second lookup is the enrichment and dispatch of
  the item as it was before that lookup: the second pull request is not part of it.
\<close>

theorem C10_first_pull_request_kept:
  fixes config g obj w
  defines "r \<equiv> MungeIssue config g obj w"
  assumes "GetPR config obj w = ((Some p, None), w1)" and "Merged p \<noteq> Some True"
    and "Mergeable p = None"
    and "GetPR config (obj\<lparr>PR := Some p\<rparr>) w1 = ((pr2, None), w2)"
  shows "PR (item r) = Some p
     \<and> (\<forall>n obj'. CallMungePullRequest n obj' \<in> set (calls r) \<longrightarrow> PR obj' = Some p)
     \<and> (Title p \<noteq> None \<and> Number p \<noteq> None \<and> pr2 = Some p2
          \<and> (Mergeable p2 \<noteq> None \<or> Number p2 \<noteq> None) \<longrightarrow>
           r = enrich_and_dispatch config g (obj\<lparr>PR := Some p\<rparr>) w2
                 [CallGetPR (Some p) None, CallSleep 2, CallGetPR pr2 None])"
proof -
  let ?t = "[CallGetPR (Some p) None, CallSleep 2, CallGetPR pr2 None]"
  let ?obj1 = "obj\<lparr>PR := Some p\<rparr>"
  have t: "list_all (\<lambda>c. is_CallGetPR c \<or> is_CallSleep c) ?t" by simp
  have en: "PR (item (enrich_and_dispatch config g ?obj1 w2 ?t)) = Some p
      \<and> (\<forall>n obj'. CallMungePullRequest n obj' \<in> set (calls (enrich_and_dispatch config g ?obj1 w2 ?t))
            \<longrightarrow> PR obj' = Some p)"
    by (cases rule: enrich_summary [where config = config and g = g and obj = ?obj1
          and w = w2 and t = ?t, OF t]) auto
  show ?thesis
  proof (cases "Title p = None \<or> Number p = None")
    case True
    with MungeIssue_wait_log_panic [OF assms(2-4) True, of g, folded r_def]
    show ?thesis by auto
  next
    case False
    then have tn: "Title p \<noteq> None" "Number p \<noteq> None" by simp_all
    note eq = MungeIssue_refetch [OF assms(2-4) tn assms(5), of g, folded r_def]
    show ?thesis
    proof (cases "pr2 = None \<or> (Mergeable (the pr2) = None \<and> Number (the pr2) = None)")
      case True
      then have "r = \<lparr>outcome = Panic, item = ?obj1, world = w2, calls = ?t\<rparr>"
        by (auto simp add: eq)
      with True show ?thesis by auto
    next
      case False
      then have "r = enrich_and_dispatch config g ?obj1 w2 ?t"
        by (auto simp add: eq)
      with en show ?thesis by auto
    qed
  qed
qed

theorem C10_first_pull_request_kept_witness:
  "PR (item (MungeIssue (example_config (Some (example_pr (Some False) None), None)
        (Some (example_pr (Some False) (Some True)), None) ([''c1''], None) ([''e1''], None))
        example_globals example_item 0)) = Some (example_pr (Some False) None)
   \<and> filter is_CallMungePullRequest
        (calls (MungeIssue (example_config (Some (example_pr (Some False) None), None)
           (Some (example_pr (Some False) (Some True)), None) ([''c1''], None) ([''e1''], None))
           example_globals example_item 0))
     = [CallMungePullRequest ''a'' (example_item\<lparr>PR := Some (example_pr (Some False) None),
           Commits := [''c1''], Events := [''e1'']\<rparr>),
        CallMungePullRequest ''b'' (example_item\<lparr>PR := Some (example_pr (Some False) None),
           Commits := [''c1''], Events := [''e1'']\<rparr>)]
   \<and> example_pr (Some False) (Some True) \<noteq> example_pr (Some False) None"
proof -
  let ?p = "example_pr (Some False) None"
  let ?q = "example_pr (Some False) (Some True)"
  let ?A = "example_config (Some ?p, None) (Some ?q, None) ([''c1''], None) ([''e1''], None)"
  have p: "Merged ?p \<noteq> Some True" "Mergeable ?p = None"
    and pq: "Title ?p \<noteq> None \<and> Number ?p \<noteq> None \<and> Some ?q = Some ?q
          \<and> (Mergeable ?q \<noteq> None \<or> Number ?q \<noteq> None)" "?q \<noteq> ?p"
    by (simp_all add: example_pr_def)
  have a1: "GetPR ?A example_item 0 = ((Some ?p, None), 1)"
    and a2: "GetPR ?A (example_item\<lparr>PR := Some ?p\<rparr>) 1 = ((Some ?q, None), 2)"
    by (simp_all add: example_config_def)
  have en: "calls (enrich_and_dispatch ?A example_globals (example_item\<lparr>PR := Some ?p\<rparr>) 2
       [CallGetPR (Some ?p) None, CallSleep 2, CallGetPR (Some ?q) None])
     = [CallGetPR (Some ?p) None, CallSleep 2, CallGetPR (Some ?q) None,
        CallGetFilledCommits [''c1''] None, CallGetAllEventsForPR [''e1''] None,
        CallMungePullRequest ''a'' (example_item\<lparr>PR := Some ?p,
           Commits := [''c1''], Events := [''e1'']\<rparr>),
        CallMungePullRequest ''b'' (example_item\<lparr>PR := Some ?p,
           Commits := [''c1''], Events := [''e1'']\<rparr>)]"
    by (simp add: enrich_and_dispatch_def example_config_def example_globals_def
          example_munger_def Let_def)
  note kept = C10_first_pull_request_kept [OF a1 p a2, where g = example_globals and ?p2.0 = ?q]
  from kept pq(1) have eq: "MungeIssue ?A example_globals example_item 0
      = enrich_and_dispatch ?A example_globals (example_item\<lparr>PR := Some ?p\<rparr>) 2
          [CallGetPR (Some ?p) None, CallSleep 2, CallGetPR (Some ?q) None]"
    by blast
  from kept have "PR (item (MungeIssue ?A example_globals example_item 0)) = Some ?p"
    by blast
  with pq(2) show ?thesis by (simp add: eq en)
qed

end
